theory Spec2Isabelle
  imports Complex_Main "HOL-Library.AList" "HOL-Library.Sublist"
begin

text \<open>
  A model of the class \<open>MusicAnalyzer\<close> of FMStats (\<open>src/utils/musicAnalyzer.ts\<close>):
  the CSV adapter, the metadata overlay and the aggregation of \<open>analyze\<close>. The file
  exists in two variants that differ in \<open>parseCSV\<close> only; both parsers are modelled,
  the rest of the class once. Methods that mutate the analyzer take its state and return
  the new one; a method that can throw returns the error together with the state it
  leaves behind.
\<close>

section \<open>Strings\<close>

text \<open>
  Strings of the program are modelled as \<^typ>\<open>string\<close> over ASCII text.

  The program's numbers are doubles. A count of records is a \<^typ>\<open>nat\<close>. A number read
  by \<open>parseInt\<close> and a sum of such numbers is an \<^typ>\<open>int\<close>, rounded to the nearest
  double (\<open>to_double\<close>) where the program rounds; a number whose magnitude reaches
  \<open>2^1024\<close>, where the program has \<open>Infinity\<close>, is outside the model. A quotient is the
  \<^typ>\<open>real\<close> quotient, of which the program holds the nearest double.
\<close>

text \<open>The white space and line terminators that \<open>String.prototype.trim\<close> and
  \<open>parseInt\<close> skip (tab, LF, VT, FF, CR, space).\<close>

definition is_ws :: "char \<Rightarrow> bool" where
  "is_ws c = (c = CHR 0x09 \<or> c = CHR 0x0A \<or> c = CHR 0x0B \<or> c = CHR 0x0C
              \<or> c = CHR 0x0D \<or> c = CHR '' '')"

definition trim :: "string \<Rightarrow> string" where
  "trim s = rev (dropWhile is_ws (rev (dropWhile is_ws s)))"

text \<open>\<open>s.split(c)\<close> for a one-character separator: the result is never empty, and
  \<open>''''.split(c)\<close> is the list holding the empty string.\<close>

fun split_on :: "char \<Rightarrow> string \<Rightarrow> string list" where
  "split_on c [] = [[]]"
| "split_on c (x # xs) =
     (if x = c then [] # split_on c xs
      else (case split_on c xs of
              [] \<Rightarrow> [[x]]
            | y # ys \<Rightarrow> (x # y) # ys))"

text \<open>\<open>xs.indexOf(x)\<close>, with \<open>None\<close> for \<open>-1\<close>.\<close>

fun indexOf :: "'a list \<Rightarrow> 'a \<Rightarrow> nat option" where
  "indexOf [] x = None"
| "indexOf (y # ys) x =
     (if y = x then Some 0 else map_option Suc (indexOf ys x))"

text \<open>\<open>values[headers.indexOf(h)]\<close>: reading at \<open>-1\<close> or past the end gives
  \<open>undefined\<close>, which is \<open>None\<close>.\<close>

definition cell :: "string list \<Rightarrow> string list \<Rightarrow> string \<Rightarrow> string option" where
  "cell headers vals h =
     (case indexOf headers h of
        None \<Rightarrow> None
      | Some i \<Rightarrow> (if i < length vals then Some (vals ! i) else None))"

text \<open>\<open>v || d\<close> on a string or \<open>undefined\<close>: the empty string is falsy.\<close>

definition or_default :: "string option \<Rightarrow> string \<Rightarrow> string" where
  "or_default v d = (case v of None \<Rightarrow> d | Some s \<Rightarrow> (if s = [] then d else s))"

text \<open>\<open>v || undefined\<close>.\<close>

definition or_undefined :: "string option \<Rightarrow> string option" where
  "or_undefined v = (case v of None \<Rightarrow> None | Some s \<Rightarrow> (if s = [] then None else Some s))"

subsection \<open>parseInt\<close>

definition digit_val :: "char \<Rightarrow> nat option" where
  "digit_val c =
     (let n = (of_char c :: nat) in
      if 48 \<le> n \<and> n \<le> 57 then Some (n - 48)
      else if 97 \<le> n \<and> n \<le> 102 then Some (n - 87)
      else if 65 \<le> n \<and> n \<le> 70 then Some (n - 55)
      else None)"

definition is_digit :: "nat \<Rightarrow> char \<Rightarrow> bool" where
  "is_digit radix c = (case digit_val c of None \<Rightarrow> False | Some d \<Rightarrow> d < radix)"

definition digits_val :: "nat \<Rightarrow> string \<Rightarrow> int" where
  "digits_val radix ds =
     foldl (\<lambda>n c. n * int radix + (case digit_val c of None \<Rightarrow> 0 | Some d \<Rightarrow> int d)) 0 ds"

text \<open>
  The double nearest to an integer: an integer below \<open>2^53\<close> in magnitude is a double;
  a larger one keeps its 53 leading bits, rounded to nearest, a tie going to the even
  neighbour. \<open>low_bits a\<close> is the number of bits that are rounded away.
\<close>

function low_bits :: "int \<Rightarrow> nat" where
  "low_bits a = (if a < 9007199254740992 then 0 else Suc (low_bits (a div 2)))"
  by pat_completeness auto
termination
  by (relation "measure nat") auto

definition round_bits :: "int \<Rightarrow> int" where
  "round_bits a =
     (let k = low_bits a;
          q = a div 2 ^ k;
          r = a mod 2 ^ k;
          half = 2 ^ (k - 1)
      in (if half < r \<or> (r = half \<and> odd q) then q + 1 else q) * 2 ^ k)"

definition to_double :: "int \<Rightarrow> int" where
  "to_double n =
     (if \<bar>n\<bar> < 9007199254740992 then n
      else if n < 0 then - round_bits (- n) else round_bits n)"

text \<open>
  \<open>parseInt(v)\<close> with no radix argument: leading white space is skipped, one sign is
  read, a prefix \<open>0x\<close> or \<open>0X\<close> selects radix 16, and the longest run of digits is
  the value, as a double. \<open>None\<close> is \<open>NaN\<close>; \<open>undefined\<close> is converted to the text
  \<open>undefined\<close>, which has no digit.
\<close>

definition parseInt :: "string option \<Rightarrow> int option" where
  "parseInt v =
     (case v of
        None \<Rightarrow> None
      | Some s \<Rightarrow>
          (let s1 = dropWhile is_ws s;
               neg = (take 1 s1 = ''-'');
               s2 = (if take 1 s1 = ''-'' \<or> take 1 s1 = ''+'' then drop 1 s1 else s1);
               hex = (take 2 s2 = ''0x'' \<or> take 2 s2 = ''0X'');
               radix = (if hex then 16 else 10);
               s3 = (if hex then drop 2 s2 else s2);
               ds = takeWhile (is_digit radix) s3
           in if ds = [] then None
              else Some (to_double ((if neg then - 1 else 1) * digits_val radix ds))))"

text \<open>\<open>parseInt(v) || 0\<close>: \<open>NaN\<close> and \<open>0\<close> are falsy.\<close>

definition parseInt_or_0 :: "string option \<Rightarrow> int" where
  "parseInt_or_0 v = (case parseInt v of None \<Rightarrow> 0 | Some n \<Rightarrow> n)"

section \<open>Data model\<close>

text \<open>The interface \<open>Track\<close>; an optional field that is \<open>undefined\<close> is \<open>None\<close>.
  The field \<open>prod\<close> is named \<open>prod_by\<close> here.\<close>

record Track =
  artist :: string
  album :: string
  track :: string
  count :: "int option"
  duration :: "string option"
  genre :: "string option"
  utc_time :: "string option"
  feat :: "string option"
  prod_by :: "string option"
  label :: "string option"

text \<open>A stored overlay entry: an object holding some of the fields of
  \<open>TrackMetadata\<close>.\<close>

record TrackMetadata =
  md_duration :: "string option"
  md_genre :: "string option"
  md_feat :: "string option"
  md_prod :: "string option"
  md_label :: "string option"

text \<open>An argument of type \<open>Partial<TrackMetadata>\<close>: for each field, \<open>None\<close> when
  the object does not have the property, \<open>Some v\<close> when it has it with value \<open>v\<close>
  (which may be \<open>undefined\<close>).\<close>

record Updates =
  u_duration :: "string option option"
  u_genre :: "string option option"
  u_feat :: "string option option"
  u_prod :: "string option option"
  u_label :: "string option option"

text \<open>A row of \<open>originalData\<close>: the eight columns of \<open>RawTrack\<close>, and the five
  overlay fields once \<open>saveToCSV\<close> has added them.\<close>

record RawTrack =
  raw_uts :: string
  raw_utc_time :: string
  raw_artist :: string
  raw_artist_mbid :: string
  raw_album :: string
  raw_album_mbid :: string
  raw_track :: string
  raw_track_mbid :: string
  raw_meta :: "TrackMetadata option"

record TopItem =
  name :: string
  item_count :: nat
  item_artist :: "string option"
  item_album :: "string option"
  item_duration :: "string option"
  item_genre :: "string option"

text \<open>The result of \<open>analyze\<close>. The field \<open>listeningPatterns\<close> is computed from
  \<open>Date\<close> objects in the host's time zone and locale and is not part of the model.\<close>

record Statistics =
  totalListeningTime :: real
  averageTrackDuration :: real
  topArtists :: "TopItem list"
  topAlbums :: "TopItem list"
  topTracks :: "TopItem list"

text \<open>
  The state of a \<open>MusicAnalyzer\<close>: its three private fields, and the item
  \<open>trackMetadata\<close> of \<open>localStorage\<close>. \<open>JSON.stringify\<close> and \<open>JSON.parse\<close> are
  modelled by the overlay object they encode.
\<close>

record analyzer =
  tracks :: "Track list"
  originalData :: "RawTrack list"
  metadata :: "(string \<times> TrackMetadata) list"
  localStorage :: "(string \<times> TrackMetadata) list option"

datatype error =
    EmptyFile
  | TooFewLines
  | MissingColumns "string list"
  | InvalidRow nat nat nat
  | InvalidCount nat "string option"
  | NoValidTracks
  | PapaError string
  | NoValidData
  | TypeError

definition createTrackKey :: "string \<Rightarrow> string \<Rightarrow> string \<Rightarrow> string" where
  "createTrackKey a b t = a @ ''|'' @ b @ ''|'' @ t"

text \<open>The constructor: the overlay is read from \<open>localStorage\<close> when the item is
  there.\<close>

definition MusicAnalyzer :: "(string \<times> TrackMetadata) list option \<Rightarrow> analyzer" where
  "MusicAnalyzer saved =
     \<lparr>tracks = [], originalData = [],
      metadata = (case saved of None \<Rightarrow> [] | Some m \<Rightarrow> m),
      localStorage = saved\<rparr>"

definition saveMetadata :: "analyzer \<Rightarrow> analyzer" where
  "saveMetadata s = s\<lparr>localStorage := Some (metadata s)\<rparr>"

section \<open>Objects used as dictionaries\<close>

text \<open>
  An object used as a dictionary is the list of its own properties in creation order:
  \<open>obj[k]\<close> is \<^const>\<open>map_of\<close>, and \<open>obj[k] = v\<close> is \<^const>\<open>AList.update\<close>, which keeps
  the place of a key that is there and appends a new one. \<open>Object.entries\<close> lists the
  keys that are array indices (canonical decimal numerals below \<open>2^32 - 1\<close>) first,
  in ascending numeric order, and the other keys after them in creation order.

  Properties inherited from \<open>Object.prototype\<close> are not modelled: the model of
  \<open>countOccurrences\<close> is the program for items other than the names in
  \<open>Object_prototype_keys\<close>. Every key built by \<open>createTrackKey\<close> holds a \<open>|\<close> and
  is neither such a name nor an array index.
\<close>

definition is_dec :: "char \<Rightarrow> bool" where
  "is_dec c = is_digit 10 c"

definition is_array_index :: "string \<Rightarrow> bool" where
  "is_array_index k =
     (if k = [] then False
      else if \<not> list_all is_dec k then False
      else if hd k = CHR ''0'' \<and> k \<noteq> ''0'' then False
      else digits_val 10 k < 4294967295)"

definition Object_entries :: "(string \<times> 'v) list \<Rightarrow> (string \<times> 'v) list" where
  "Object_entries obj =
     sort_key (\<lambda>p. digits_val 10 (fst p)) (filter (\<lambda>p. is_array_index (fst p)) obj)
     @ filter (\<lambda>p. \<not> is_array_index (fst p)) obj"


section \<open>CSV adapter\<close>

subsection \<open>The parser of \<open>src/utils/musicAnalyzer.ts\<close>\<close>

definition requiredHeaders :: "string list" where
  "requiredHeaders = [''Artist'', ''Album'', ''Track'', ''Count'']"

text \<open>The values of a data line, and the object that the loop pushes for them: the
  count is \<open>parseInt(values[...] || '0')\<close>, which is a number when the row is pushed.\<close>

definition rowValues :: "string \<Rightarrow> string list" where
  "rowValues line = map trim (split_on CHR '','' line)"

definition rowCount :: "string list \<Rightarrow> string list \<Rightarrow> int option" where
  "rowCount headers vals = parseInt (Some (or_default (cell headers vals ''Count'') ''0''))"

definition rowTrack :: "string list \<Rightarrow> string list \<Rightarrow> Track" where
  "rowTrack headers vals =
     \<lparr>artist = or_default (cell headers vals ''Artist'') [],
      album = or_default (cell headers vals ''Album'') [],
      track = or_default (cell headers vals ''Track'') [],
      count = rowCount headers vals,
      duration = or_undefined (cell headers vals ''Duration''),
      genre = or_undefined (cell headers vals ''Genre''),
      utc_time = or_undefined (cell headers vals ''UTC Time''),
      feat = None, prod_by = None, label = None\<rparr>"

text \<open>The loop over the data lines. \<open>i\<close> is the index of the line in the file,
  \<open>acc\<close> is \<open>this.tracks\<close>, which the loop extends in place: at a \<open>throw\<close> the rows
  pushed so far stay in it.\<close>

fun parse_rows :: "string list \<Rightarrow> string list \<Rightarrow> nat \<Rightarrow> Track list
    \<Rightarrow> error option \<times> Track list" where
  "parse_rows headers [] i acc = (None, acc)"
| "parse_rows headers (l # ls) i acc =
     (let line = trim l in
      if line = [] then parse_rows headers ls (i + 1) acc
      else
        let vals = rowValues line in
        if length vals \<noteq> length headers
        then (Some (InvalidRow (i + 1) (length headers) (length vals)), acc)
        else if rowCount headers vals = None
        then (Some (InvalidCount (i + 1) (cell headers vals ''Count'')), acc)
        else parse_rows headers ls (i + 1) (acc @ [rowTrack headers vals]))"

text \<open>
  \<open>parseCSV\<close> on the text of the file. The result is the error thrown and the state the
  call leaves. After the loop the method calls \<open>this.loadMetadata()\<close>; the class defines
  no such method, so the call throws a \<open>TypeError\<close>, with the rows that were read in
  \<open>this.tracks\<close>: no call of \<open>parseCSV\<close> returns without an error.
\<close>

definition parseCSV :: "string \<Rightarrow> analyzer \<Rightarrow> error option \<times> analyzer" where
  "parseCSV text s =
     (if trim text = [] then (Some EmptyFile, s)
      else
        let lines = split_on CHR 0x0A text in
        if length lines < 2 then (Some TooFewLines, s)
        else
          let headers = map trim (split_on CHR '','' (hd lines));
              missingHeaders = filter (\<lambda>h. h \<notin> set headers) requiredHeaders
          in
          if missingHeaders \<noteq> [] then (Some (MissingColumns missingHeaders), s)
          else
            (case parse_rows headers (tl lines) 1 [] of
               (Some e, acc) \<Rightarrow> (Some e, s\<lparr>tracks := acc\<rparr>)
             | (None, acc) \<Rightarrow>
                 (if acc = [] then (Some NoValidTracks, s\<lparr>tracks := acc\<rparr>)
                  else (Some TypeError, s\<lparr>tracks := acc\<rparr>))))"

subsection \<open>The parser of the second variant of the file\<close>

text \<open>What \<open>Papa.parse\<close> hands to the callback \<open>complete\<close>: the rows, each an object
  from (trimmed) header names to (trimmed) values, and the errors.\<close>

record PapaResults =
  papa_data :: "(string \<times> string) list list"
  papa_errors :: "string list"

definition rawOf :: "(string \<times> string) list \<Rightarrow> RawTrack" where
  "rawOf row =
     \<lparr>raw_uts = or_default (map_of row ''uts'') [],
      raw_utc_time = or_default (map_of row ''utc_time'') [],
      raw_artist = or_default (map_of row ''artist'') [],
      raw_artist_mbid = or_default (map_of row ''artist_mbid'') [],
      raw_album = or_default (map_of row ''album'') [],
      raw_album_mbid = or_default (map_of row ''album_mbid'') [],
      raw_track = or_default (map_of row ''track'') [],
      raw_track_mbid = or_default (map_of row ''track_mbid'') [],
      raw_meta = None\<rparr>"

definition defaultMetadata :: TrackMetadata where
  "defaultMetadata =
     \<lparr>md_duration = Some [], md_genre = Some [], md_feat = Some [],
      md_prod = Some [], md_label = Some []\<rparr>"

definition trackOf :: "(string \<times> TrackMetadata) list \<Rightarrow> RawTrack \<Rightarrow> Track" where
  "trackOf md row =
     (let trackKey = createTrackKey (raw_artist row) (raw_album row) (raw_track row);
          savedMetadata = (case map_of md trackKey of None \<Rightarrow> defaultMetadata | Some e \<Rightarrow> e)
      in \<lparr>artist = raw_artist row, album = raw_album row, track = raw_track row,
          count = None,
          duration = md_duration savedMetadata, genre = md_genre savedMetadata,
          utc_time = Some (raw_utc_time row),
          feat = md_feat savedMetadata, prod_by = md_prod savedMetadata,
          label = md_label savedMetadata\<rparr>)"

definition parseCSV_complete :: "PapaResults \<Rightarrow> analyzer \<Rightarrow> error option \<times> analyzer" where
  "parseCSV_complete results s =
     (if papa_errors results \<noteq> [] then (Some (PapaError (hd (papa_errors results))), s)
      else if papa_data results = [] then (Some NoValidData, s)
      else
        let s1 = s\<lparr>originalData := map rawOf (papa_data results)\<rparr>
        in (None, s1\<lparr>tracks := map (trackOf (metadata s1)) (originalData s1)\<rparr>))"

subsection \<open>Serialising\<close>

text \<open>\<open>saveToCSV\<close>, with \<open>Papa.unparse\<close> as a parameter. Reading a field of
  \<open>this.tracks[index]\<close> past the end of \<open>tracks\<close> throws, before \<open>originalData\<close> is
  assigned.\<close>

definition withMeta :: "RawTrack \<Rightarrow> Track \<Rightarrow> RawTrack" where
  "withMeta row t =
     row\<lparr>raw_meta := Some \<lparr>md_duration = duration t, md_genre = genre t, md_feat = feat t,
                            md_prod = prod_by t, md_label = label t\<rparr>\<rparr>"

definition saveToCSV :: "(RawTrack list \<Rightarrow> string) \<Rightarrow> analyzer \<Rightarrow> error + string \<times> analyzer" where
  "saveToCSV unparse s =
     (if length (tracks s) < length (originalData s) then Inl TypeError
      else
        let s1 = s\<lparr>originalData := map2 withMeta (originalData s) (tracks s)\<rparr>
        in Inr (unparse (originalData s1), s1))"

section \<open>Metadata overlay\<close>

fun findIndex :: "('a \<Rightarrow> bool) \<Rightarrow> 'a list \<Rightarrow> nat option" where
  "findIndex P [] = None"
| "findIndex P (x # xs) = (if P x then Some 0 else map_option Suc (findIndex P xs))"

text \<open>The spread \<open>{...old, ...updates}\<close> and \<open>Object.assign(track, updates)\<close>: a
  property of \<open>updates\<close> replaces the field, also when its value is \<open>undefined\<close>.\<close>

definition put :: "'a \<Rightarrow> 'a option \<Rightarrow> 'a" where
  "put old u = (case u of None \<Rightarrow> old | Some v \<Rightarrow> v)"

definition spread :: "TrackMetadata \<Rightarrow> Updates \<Rightarrow> TrackMetadata" where
  "spread e u =
     \<lparr>md_duration = put (md_duration e) (u_duration u),
      md_genre = put (md_genre e) (u_genre u),
      md_feat = put (md_feat e) (u_feat u),
      md_prod = put (md_prod e) (u_prod u),
      md_label = put (md_label e) (u_label u)\<rparr>"

definition assign :: "Track \<Rightarrow> Updates \<Rightarrow> Track" where
  "assign t u =
     t\<lparr>duration := put (duration t) (u_duration u),
       genre := put (genre t) (u_genre u),
       feat := put (feat t) (u_feat u),
       prod_by := put (prod_by t) (u_prod u),
       label := put (label t) (u_label u)\<rparr>"

definition emptyMetadata :: TrackMetadata where
  "emptyMetadata =
     \<lparr>md_duration = None, md_genre = None, md_feat = None, md_prod = None, md_label = None\<rparr>"

definition updateTrackMetadata ::
    "string \<Rightarrow> string \<Rightarrow> string \<Rightarrow> Updates \<Rightarrow> analyzer \<Rightarrow> analyzer" where
  "updateTrackMetadata a b t updates s =
     (let trackKey = createTrackKey a b t;
          old = (case map_of (metadata s) trackKey of None \<Rightarrow> emptyMetadata | Some e \<Rightarrow> e);
          s1 = s\<lparr>metadata := AList.update trackKey (spread old updates) (metadata s)\<rparr>;
          s2 = (case findIndex (\<lambda>r. artist r = a \<and> album r = b \<and> track r = t) (tracks s1) of
                  None \<Rightarrow> s1
                | Some i \<Rightarrow> s1\<lparr>tracks := (tracks s1)[i := assign (tracks s1 ! i) updates]\<rparr>)
      in saveMetadata s2)"

section \<open>Aggregation\<close>

definition countOccurrences :: "string list \<Rightarrow> (string \<times> nat) list" where
  "countOccurrences items =
     foldl (\<lambda>acc key. AList.update key ((case map_of acc key of None \<Rightarrow> 0 | Some n \<Rightarrow> n) + 1) acc)
       [] items"

text \<open>\<open>.sort((a, b) => b.count - a.count)\<close>: the sort is stable, by descending
  count.\<close>

definition sort_by_count :: "TopItem list \<Rightarrow> TopItem list" where
  "sort_by_count xs = sort_key (\<lambda>i. - int (item_count i)) xs"

text \<open>\<open>.slice(0, n)\<close>, with \<open>None\<close> for the default \<open>Infinity\<close>.\<close>

definition slice0 :: "nat option \<Rightarrow> 'a list \<Rightarrow> 'a list" where
  "slice0 n xs = (case n of None \<Rightarrow> xs | Some k \<Rightarrow> take k xs)"

definition getTopItems :: "(string \<times> nat) list \<Rightarrow> nat option \<Rightarrow> TopItem list" where
  "getTopItems items n =
     slice0 n (sort_by_count
       (map (\<lambda>p. \<lparr>name = fst p, item_count = snd p, item_artist = None, item_album = None,
                  item_duration = None, item_genre = None\<rparr>)
          (filter (\<lambda>p. fst p \<noteq> [] \<and> trim (fst p) \<noteq> []) (Object_entries items))))"

record TrackCount =
  tc_count :: nat
  tc_artist :: string
  tc_album :: string
  tc_duration :: "string option"
  tc_genre :: "string option"

definition countTrack :: "(string \<times> TrackCount) list \<Rightarrow> Track \<Rightarrow> (string \<times> TrackCount) list" where
  "countTrack trackCounts t =
     (let key = artist t @ ''|'' @ album t @ ''|'' @ track t;
          e = (case map_of trackCounts key of
                 None \<Rightarrow> \<lparr>tc_count = 0, tc_artist = artist t, tc_album = album t,
                          tc_duration = duration t, tc_genre = genre t\<rparr>
               | Some e \<Rightarrow> e)
      in AList.update key (e\<lparr>tc_count := tc_count e + 1\<rparr>) trackCounts)"

text \<open>\<open>key.split('|')[2]\<close>; a key has at least three segments.\<close>

definition key_name :: "string \<Rightarrow> string" where
  "key_name key = (case drop 2 (split_on CHR ''|'' key) of [] \<Rightarrow> [] | x # _ \<Rightarrow> x)"

definition trackItem :: "string \<times> TrackCount \<Rightarrow> TopItem" where
  "trackItem p =
     \<lparr>name = key_name (fst p),
      item_count = tc_count (snd p),
      item_artist = Some (tc_artist (snd p)), item_album = Some (tc_album (snd p)),
      item_duration = tc_duration (snd p), item_genre = tc_genre (snd p)\<rparr>"

definition getTopTracks :: "Track list \<Rightarrow> nat option \<Rightarrow> TopItem list" where
  "getTopTracks ts n =
     slice0 n (sort_by_count (map trackItem
       (Object_entries (foldl countTrack [] (filter (\<lambda>t. trim (track t) \<noteq> []) ts)))))"

definition analyze :: "analyzer \<Rightarrow> Statistics" where
  "analyze s =
     (let tracksWithDuration = filter (\<lambda>t. duration t \<noteq> Some []) (tracks s);
          totalDuration =
            foldl (\<lambda>sum t. to_double (sum + parseInt_or_0 (duration t))) 0 tracksWithDuration;
          averageDuration =
            (if length tracksWithDuration > 0
             then real_of_int totalDuration / real (length tracksWithDuration) else 0);
          artistCounts = countOccurrences
            (map artist (filter (\<lambda>t. trim (artist t) \<noteq> []) (tracks s)));
          albumCounts = countOccurrences
            (map album (filter (\<lambda>t. trim (album t) \<noteq> []) (tracks s)))
      in \<lparr>totalListeningTime = real_of_int totalDuration / 3600,
          averageTrackDuration = averageDuration / 60,
          topArtists = getTopItems artistCounts None,
          topAlbums = getTopItems albumCounts None,
          topTracks = getTopTracks (tracks s) None\<rparr>)"

section \<open>Inputs of the scenarios\<close>

text \<open>The two-row file of the first scenario.\<close>

definition two_rows_csv :: string where
  "two_rows_csv =
     ''Artist,Album,Track,Count'' @ [CHR 0x0A] @ ''A,X,T1,3'' @ [CHR 0x0A] @ ''A,X,T2,5''"

definition name_count :: "TopItem \<Rightarrow> string \<times> nat" where
  "name_count i = (name i, item_count i)"

text \<open>A record of the second variant of the parser with no overlay entry.\<close>

definition plain_track :: "string \<Rightarrow> string \<Rightarrow> string \<Rightarrow> Track" where
  "plain_track a b t =
     \<lparr>artist = a, album = b, track = t, count = None, duration = Some [], genre = Some [],
      utc_time = Some [], feat = Some [], prod_by = Some [], label = Some []\<rparr>"


definition set_duration :: "string \<Rightarrow> Updates" where
  "set_duration d =
     \<lparr>u_duration = Some (Some d), u_genre = None, u_feat = None, u_prod = None, u_label = None\<rparr>"

text \<open>A row as \<open>Papa.parse\<close> delivers it, and a history with two plays of one track.\<close>

definition play :: "string \<Rightarrow> string \<Rightarrow> string \<Rightarrow> string \<Rightarrow> (string \<times> string) list" where
  "play time a b t = [(''utc_time'', time), (''artist'', a), (''album'', b), (''track'', t)]"

definition two_plays :: PapaResults where
  "two_plays =
     \<lparr>papa_data = [play ''01 Jan 2024, 10:00'' ''A'' ''X'' ''T1'',
                    play ''02 Jan 2024, 11:00'' ''A'' ''X'' ''T1''],
      papa_errors = []\<rparr>"

text \<open>A file with a column \<open>Duration\<close> whose second row leaves it empty.\<close>

definition missing_duration_csv :: string where
  "missing_duration_csv =
     ''Artist,Album,Track,Count,Duration'' @ [CHR 0x0A] @ ''A,X,T1,1,120''
       @ [CHR 0x0A] @ ''A,X,T2,1,''"



text \<open>
  The total listening time in the spec's words: the sum of duration times play count
  over the records with a present, parseable, non-negative duration, in hours. The play
  count of a record without the field \<open>count\<close> is 1.
\<close>

definition playCount :: "Track \<Rightarrow> int" where
  "playCount t = (case count t of None \<Rightarrow> 1 | Some c \<Rightarrow> c)"

definition spec_duration :: "Track \<Rightarrow> int option" where
  "spec_duration t =
     (case parseInt (duration t) of
        None \<Rightarrow> None
      | Some d \<Rightarrow> (if 0 \<le> d then Some d else None))"

definition spec_totalListeningTime :: "Track list \<Rightarrow> real" where
  "spec_totalListeningTime ts =
     real_of_int (sum_list (map (\<lambda>t. case spec_duration t of None \<Rightarrow> 0 | Some d \<Rightarrow> d * playCount t) ts))
       / 3600"

text \<open>Safe durations: the magnitudes of the parsed durations add up to less than
  \<open>2^53\<close>, so that every sum of them is exact in doubles. And a file whose only row has
  a negative duration.\<close>

definition safe_durations :: "Track list \<Rightarrow> bool" where
  "safe_durations ts =
     (sum_list (map (\<lambda>t. \<bar>parseInt_or_0 (duration t)\<bar>) ts) < 9007199254740992)"

definition negative_duration_csv :: string where
  "negative_duration_csv =
     ''Artist,Album,Track,Count,Duration'' @ [CHR 0x0A] @ ''A,X,T1,1,-5''"

text \<open>
  The rows before a failure. The header cells and the data lines of a text are those
  that \<open>parseCSV\<close> reads: the trimmed cells of the first line, and the trimmed lines
  after it that are not blank. A data line is well formed when it has as many values as
  the header has cells and its count is a number. The rows before the failure are the
  records of the longest run of well-formed data lines from the first one on. The counts
  are finite when none reaches \<open>2^1024\<close>.
\<close>

definition header_cells :: "string \<Rightarrow> string list" where
  "header_cells text = map trim (split_on CHR '','' (hd (split_on CHR 0x0A text)))"


















section \<open>Keys of objects\<close>



section \<open>Counts are numbers of records\<close>

text \<open>
  C1, as stated, fails: on the two-row file \<open>topArtists\<close> is not the entry \<open>A\<close> with
  count 8, and \<open>topTracks\<close> is not \<open>T2\<close> with 5 before \<open>T1\<close> with 3.
\<close>

theorem two_rows_not_summed:
  "map name_count (topArtists (analyze (snd (parseCSV two_rows_csv (MusicAnalyzer None)))))
     \<noteq> [(''A'', 8)]
   \<and> map name_count (topTracks (analyze (snd (parseCSV two_rows_csv (MusicAnalyzer None)))))
     \<noteq> [(''T2'', 5), (''T1'', 3)]"
  by code_simp

text \<open>
  C1, amended. On the two-row file \<open>analyze\<close> counts records: \<open>topArtists\<close> is the
  single entry \<open>A\<close> with count 2, and \<open>topTracks\<close> is \<open>T1\<close> with count 1, then
  \<open>T2\<close> with count 1, in the order of the file. The column \<open>Count\<close> is not read by
  \<open>analyze\<close>.
\<close>

theorem two_rows_counted:
  "map name_count (topArtists (analyze (snd (parseCSV two_rows_csv (MusicAnalyzer None)))))
     = [(''A'', 2)]
   \<and> map name_count (topTracks (analyze (snd (parseCSV two_rows_csv (MusicAnalyzer None)))))
     = [(''T1'', 1), (''T2'', 1)]"
  by code_simp

section \<open>Numbers are doubles\<close>

text \<open>
  \<open>2^53 + 1\<close> is not a double: \<open>parseInt\<close> reads it as \<open>2^53\<close>, and adding 1 to
  \<open>2^53\<close> leaves it unchanged, so that \<open>analyze\<close> totals the durations
  \<open>9007199254740993\<close>, 1 and 1 to \<open>2^53\<close> seconds.
\<close>

lemma parseInt_rounds: "parseInt (Some ''9007199254740993'') = Some 9007199254740992"
  by code_simp

lemma totalListeningTime_rounds:
  "totalListeningTime (analyze ((MusicAnalyzer None)\<lparr>tracks :=
      [(plain_track ''A'' ''X'' ''T1'')\<lparr>duration := Some ''9007199254740993''\<rparr>,
       (plain_track ''A'' ''X'' ''T2'')\<lparr>duration := Some ''1''\<rparr>,
       (plain_track ''A'' ''X'' ''T3'')\<lparr>duration := Some ''1''\<rparr>]\<rparr>))
   = 9007199254740992 / 3600"
  by code_simp

section \<open>Total listening time\<close>

text \<open>
  C2, as stated, fails: after \<open>updateTrackMetadata\<close> has given the duration 120 to
  the track \<open>T1\<close> of the two-row file, whose count is 3, \<open>analyze\<close> reports 120
  seconds, and the sum of duration times play count is 360 seconds; and for a file whose
  only row has the duration \<open>-5\<close>, \<open>analyze\<close> reports \<open>-5\<close> seconds, where the sum over
  the non-negative durations is 0.
\<close>

theorem update_not_weighted:
  "totalListeningTime (analyze (updateTrackMetadata ''A'' ''X'' ''T1'' (set_duration ''120'')
      (snd (parseCSV two_rows_csv (MusicAnalyzer None))))) = 120 / 3600
   \<and> spec_totalListeningTime (tracks (updateTrackMetadata ''A'' ''X'' ''T1'' (set_duration ''120'')
      (snd (parseCSV two_rows_csv (MusicAnalyzer None))))) = (120 * 3) / 3600
   \<and> totalListeningTime (analyze (updateTrackMetadata ''A'' ''X'' ''T1'' (set_duration ''120'')
      (snd (parseCSV two_rows_csv (MusicAnalyzer None)))))
     \<noteq> spec_totalListeningTime (tracks (updateTrackMetadata ''A'' ''X'' ''T1'' (set_duration ''120'')
      (snd (parseCSV two_rows_csv (MusicAnalyzer None)))))
   \<and> totalListeningTime (analyze (snd (parseCSV negative_duration_csv (MusicAnalyzer None))))
     = - 5 / 3600
   \<and> spec_totalListeningTime (tracks (snd (parseCSV negative_duration_csv (MusicAnalyzer None))))
     = 0"
  by code_simp

lemma to_double_small: "\<bar>n\<bar> < 9007199254740992 \<Longrightarrow> to_double n = n"
  by (simp add: to_double_def)

lemma foldl_to_double_sum:
  "\<bar>a\<bar> + sum_list (map (\<lambda>t. \<bar>f t\<bar>) xs) < 9007199254740992
     \<Longrightarrow> foldl (\<lambda>sum t. to_double (sum + f t)) a xs = a + sum_list (map f xs)"
proof (induction xs arbitrary: a)
  case Nil
  then show ?case by simp
next
  case (Cons x xs)
  have nn: "0 \<le> sum_list (map (\<lambda>t. \<bar>f t\<bar>) xs)"
    by (rule sum_list_nonneg) auto
  from Cons.prems nn have small: "\<bar>a + f x\<bar> < 9007199254740992"
    by simp
  from Cons.prems have "\<bar>a + f x\<bar> + sum_list (map (\<lambda>t. \<bar>f t\<bar>) xs) < 9007199254740992"
    by simp
  then have "foldl (\<lambda>sum t. to_double (sum + f t)) (a + f x) xs
      = (a + f x) + sum_list (map f xs)"
    by (rule Cons.IH)
  with small show ?case
    by (simp add: to_double_small)
qed

lemma sum_list_filter_zero:
  "(\<And>t. \<not> P t \<Longrightarrow> f t = 0) \<Longrightarrow> sum_list (map f (filter P xs)) = sum_list (map f xs)"
  for f :: "'a \<Rightarrow> int"
  by (induction xs) auto

lemma sum_list_abs_filter:
  "sum_list (map (\<lambda>t. \<bar>f t\<bar>) (filter P xs)) \<le> sum_list (map (\<lambda>t. \<bar>f t\<bar>) xs)"
  for f :: "'a \<Rightarrow> int"
  by (induction xs) auto

lemma parseInt_empty: "parseInt (Some []) = None"
  by (simp add: parseInt_def)

lemma totalDuration_sum:
  assumes "safe_durations ts"
  shows "foldl (\<lambda>sum t. to_double (sum + parseInt_or_0 (duration t))) 0
      (filter (\<lambda>t. duration t \<noteq> Some []) ts)
   = sum_list (map (\<lambda>t. parseInt_or_0 (duration t)) (filter (\<lambda>t. parseInt (duration t) \<noteq> None) ts))"
proof -
  have a: "sum_list (map (\<lambda>t. parseInt_or_0 (duration t)) (filter (\<lambda>t. duration t \<noteq> Some []) ts))
      = sum_list (map (\<lambda>t. parseInt_or_0 (duration t)) ts)"
    by (rule sum_list_filter_zero) (simp add: parseInt_or_0_def parseInt_empty)
  have b: "sum_list (map (\<lambda>t. parseInt_or_0 (duration t)) (filter (\<lambda>t. parseInt (duration t) \<noteq> None) ts))
      = sum_list (map (\<lambda>t. parseInt_or_0 (duration t)) ts)"
    by (rule sum_list_filter_zero) (simp add: parseInt_or_0_def)
  from assms
  have "\<bar>0\<bar> + sum_list (map (\<lambda>t. \<bar>parseInt_or_0 (duration t)\<bar>)
      (filter (\<lambda>t. duration t \<noteq> Some []) ts)) < 9007199254740992"
    using sum_list_abs_filter [of "\<lambda>t. parseInt_or_0 (duration t)" "\<lambda>t. duration t \<noteq> Some []" ts]
    by (simp add: safe_durations_def)
  then have "foldl (\<lambda>sum t. to_double (sum + parseInt_or_0 (duration t))) 0
      (filter (\<lambda>t. duration t \<noteq> Some []) ts)
    = 0 + sum_list (map (\<lambda>t. parseInt_or_0 (duration t)) (filter (\<lambda>t. duration t \<noteq> Some []) ts))"
    by (rule foldl_to_double_sum)
  then show ?thesis
    unfolding a b by simp
qed

text \<open>
  C2, amended. When the durations are safe (the sum of their magnitudes is below
  \<open>2^53\<close>, so that the additions of \<open>analyze\<close> are exact), the total listening time is
  the sum of the parsed durations over exactly the records whose duration parses, a
  negative one included, each record once whatever its count, divided by 3600; after the
  update of \<open>T1\<close> in the two-row file it is 120 seconds.
\<close>

theorem totalListeningTime_unweighted:
  assumes "safe_durations (tracks s)"
  shows "totalListeningTime (analyze s)
     = real_of_int (sum_list (map (\<lambda>t. parseInt_or_0 (duration t))
         (filter (\<lambda>t. parseInt (duration t) \<noteq> None) (tracks s)))) / 3600
   \<and> totalListeningTime (analyze (updateTrackMetadata ''A'' ''X'' ''T1'' (set_duration ''120'')
      (snd (parseCSV two_rows_csv (MusicAnalyzer None))))) = 120 / 3600"
proof -
  have "totalListeningTime (analyze (updateTrackMetadata ''A'' ''X'' ''T1'' (set_duration ''120'')
      (snd (parseCSV two_rows_csv (MusicAnalyzer None))))) = 120 / 3600"
    by code_simp
  moreover have "totalListeningTime (analyze s)
     = real_of_int (sum_list (map (\<lambda>t. parseInt_or_0 (duration t))
         (filter (\<lambda>t. parseInt (duration t) \<noteq> None) (tracks s)))) / 3600"
    unfolding analyze_def Let_def totalDuration_sum [OF assms] by simp
  ultimately show ?thesis by (rule conjI [rotated])
qed

theorem totalListeningTime_unweighted_witness:
  "safe_durations (tracks (snd (parseCSV negative_duration_csv (MusicAnalyzer None))))
   \<and> sum_list (map (\<lambda>t. parseInt_or_0 (duration t))
         (filter (\<lambda>t. parseInt (duration t) \<noteq> None)
           (tracks (snd (parseCSV negative_duration_csv (MusicAnalyzer None)))))) = - 5
   \<and> totalListeningTime (analyze (snd (parseCSV negative_duration_csv (MusicAnalyzer None))))
     = real_of_int (- 5) / 3600"
proof -
  have a: "safe_durations (tracks (snd (parseCSV negative_duration_csv (MusicAnalyzer None))))"
    by code_simp
  have b: "sum_list (map (\<lambda>t. parseInt_or_0 (duration t))
         (filter (\<lambda>t. parseInt (duration t) \<noteq> None)
           (tracks (snd (parseCSV negative_duration_csv (MusicAnalyzer None)))))) = - 5"
    by code_simp
  from totalListeningTime_unweighted [OF a]
  have "totalListeningTime (analyze (snd (parseCSV negative_duration_csv (MusicAnalyzer None))))
     = real_of_int (sum_list (map (\<lambda>t. parseInt_or_0 (duration t))
         (filter (\<lambda>t. parseInt (duration t) \<noteq> None)
           (tracks (snd (parseCSV negative_duration_csv (MusicAnalyzer None))))))) / 3600"
    by (rule conjunct1)
  then have "totalListeningTime (analyze (snd (parseCSV negative_duration_csv (MusicAnalyzer None))))
     = real_of_int (- 5) / 3600"
    by (simp only: b)
  with a b show ?thesis by (intro conjI)
qed

section \<open>Records without a duration\<close>

text \<open>
  C8 at a file whose second row has no duration: the record is parsed with the duration
  \<open>undefined\<close>, and \<open>analyze\<close> divides the total of 120 seconds by two records (an
  average of 1 minute); without the second record the average is 2 minutes.
\<close>

theorem absent_duration_in_average:
  "map duration (tracks (snd (parseCSV missing_duration_csv (MusicAnalyzer None))))
     = [Some ''120'', None]
   \<and> averageTrackDuration (analyze (snd (parseCSV missing_duration_csv (MusicAnalyzer None)))) = 1
   \<and> averageTrackDuration (analyze ((snd (parseCSV missing_duration_csv (MusicAnalyzer None)))
        \<lparr>tracks := take 1 (tracks (snd (parseCSV missing_duration_csv (MusicAnalyzer None))))\<rparr>))
     = 2"
  by code_simp

section \<open>Ranking of groups with equal counts\<close>











































section \<open>The key of a track is not injective\<close>






section \<open>Enrichment is idempotent\<close>

lemma put_put: "put (put old u) u = put old u"
  by (cases u) (simp_all add: put_def)

lemma spread_idem: "spread (spread e u) u = spread e u"
  by (simp add: spread_def put_put)

lemma assign_idem: "assign (assign t u) u = assign t u"
  by (simp add: assign_def put_put)

lemma findIndex_Some: "findIndex P xs = Some i \<Longrightarrow> i < length xs \<and> P (xs ! i)"
  by (induction xs arbitrary: i) (auto split: if_splits)

lemma findIndex_update:
  "findIndex P xs = Some i \<Longrightarrow> P y \<Longrightarrow> findIndex P (xs[i := y]) = Some i"
  by (induction xs arbitrary: i) (auto split: if_splits)

lemma assign_identity:
  "artist (assign r u) = artist r \<and> album (assign r u) = album r \<and> track (assign r u) = track r"
  by (simp add: assign_def)

text \<open>
  C7. Calling \<open>updateTrackMetadata\<close> a second time with the same identity and the same
  fields leaves the state of the first call: the same overlay, the same stored item and
  the same records.
\<close>

theorem updateTrackMetadata_idempotent:
  "updateTrackMetadata a b t u (updateTrackMetadata a b t u s) = updateTrackMetadata a b t u s"
proof (cases "findIndex (\<lambda>r. artist r = a \<and> album r = b \<and> track r = t) (tracks s)")
  case None
  then show ?thesis
    by (simp add: updateTrackMetadata_def saveMetadata_def Let_def update_conv' spread_idem)
next
  case (Some i)
  from findIndex_Some [OF Some] have i: "i < length (tracks s)"
    and P: "artist (tracks s ! i) = a \<and> album (tracks s ! i) = b \<and> track (tracks s ! i) = t"
    by simp_all
  from P have P': "(\<lambda>r. artist r = a \<and> album r = b \<and> track r = t) (assign (tracks s ! i) u)"
    by (simp add: assign_identity)
  have again: "findIndex (\<lambda>r. artist r = a \<and> album r = b \<and> track r = t)
      ((tracks s)[i := assign (tracks s ! i) u]) = Some i"
    by (rule findIndex_update [OF Some P'])
  show ?thesis
    using Some again i
    by (simp add: updateTrackMetadata_def saveMetadata_def Let_def update_conv' spread_idem assign_idem)
qed

section \<open>An update reaches the first matching record only\<close>

text \<open>The overlay entry of the identity is the old entry with the fields of the update
  put on top, created when there was none, and the whole overlay is written to
  \<open>localStorage\<close>.\<close>

lemma updateTrackMetadata_overlay:
  "map_of (metadata (updateTrackMetadata a b t u s)) (createTrackKey a b t)
     = Some (spread (case map_of (metadata s) (createTrackKey a b t) of
                      None \<Rightarrow> emptyMetadata | Some e \<Rightarrow> e) u)
   \<and> localStorage (updateTrackMetadata a b t u s) = Some (metadata (updateTrackMetadata a b t u s))"
  by (simp add: updateTrackMetadata_def saveMetadata_def Let_def update_conv' split: option.splits)

text \<open>
  C5 at a history with two plays of one track: \<open>updateTrackMetadata\<close> sets the duration
  of the first record and leaves the second, while loading the same rows again with the
  overlay it has written gives the duration to both.
\<close>

theorem update_only_first:
  "map duration (tracks (updateTrackMetadata ''A'' ''X'' ''T1'' (set_duration ''120'')
      (snd (parseCSV_complete two_plays (MusicAnalyzer None))))) = [Some ''120'', Some []]
   \<and> map duration (tracks (snd (parseCSV_complete two_plays
        (updateTrackMetadata ''A'' ''X'' ''T1'' (set_duration ''120'')
          (snd (parseCSV_complete two_plays (MusicAnalyzer None)))))))
      = [Some ''120'', Some ''120'']"
  by code_simp

section \<open>The store after a failed parse\<close>





lemma parseCSV_unfold:
  assumes "parse_rows (header_cells text) (tl (split_on CHR 0x0A text)) 1 [] = (r, acc)"
  shows "parseCSV text s =
     (if trim text = [] then (Some EmptyFile, s)
      else if length (split_on CHR 0x0A text) < 2 then (Some TooFewLines, s)
      else if filter (\<lambda>h. h \<notin> set (header_cells text)) requiredHeaders \<noteq> []
      then (Some (MissingColumns
              (filter (\<lambda>h. h \<notin> set (header_cells text)) requiredHeaders)), s)
      else (case r of
              Some e \<Rightarrow> (Some e, s\<lparr>tracks := acc\<rparr>)
            | None \<Rightarrow> (if acc = [] then (Some NoValidTracks, s\<lparr>tracks := acc\<rparr>)
                       else (Some TypeError, s\<lparr>tracks := acc\<rparr>))))"
  using assms by (simp add: parseCSV_def Let_def header_cells_def)

text \<open>No call of \<open>parseCSV\<close> returns without an error.\<close>

lemma parseCSV_fails: "fst (parseCSV text s) \<noteq> None"
proof -
  obtain r acc where "parse_rows (header_cells text) (tl (split_on CHR 0x0A text)) 1 [] = (r, acc)"
    by (cases "parse_rows (header_cells text) (tl (split_on CHR 0x0A text)) 1 []") blast
  from parseCSV_unfold [OF this] show ?thesis
    by (simp split: option.splits)
qed



section \<open>Header matching\<close>











section \<open>Serialising after parsing\<close>

lemma parseCSV_originalData: "originalData (snd (parseCSV text s)) = originalData s"
  by (simp add: parseCSV_def Let_def split: prod.splits option.splits)

text \<open>
  C3 on the parser of \<open>src/utils/musicAnalyzer.ts\<close>: every call of \<open>parseCSV\<close> ends
  with an error, and it does not fill \<open>originalData\<close>; so in the state that a parse by a
  new analyzer leaves, \<open>saveToCSV\<close> serialises the empty list, whatever was read, and
  parsing that text fails: as an empty file when the text is empty, which is what
  \<open>Papa.unparse\<close> returns for the empty list.
\<close>

theorem saveToCSV_after_parseCSV:
  assumes "originalData s = []"
  shows "fst (parseCSV text s) \<noteq> None
    \<and> saveToCSV unparse (snd (parseCSV text s)) = Inr (unparse [], snd (parseCSV text s))
    \<and> fst (parseCSV (unparse []) (snd (parseCSV text s))) \<noteq> None
    \<and> fst (parseCSV [] (snd (parseCSV text s))) = Some EmptyFile"
proof -
  from assms parseCSV_originalData [of "text" s]
  have "originalData (snd (parseCSV text s)) = []" by simp
  then have "saveToCSV unparse (snd (parseCSV text s)) = Inr (unparse [], snd (parseCSV text s))"
    by (simp add: saveToCSV_def)
  moreover have "fst (parseCSV [] (snd (parseCSV text s))) = Some EmptyFile"
    by (simp add: parseCSV_def trim_def)
  ultimately show ?thesis
    using parseCSV_fails [of "text" s] parseCSV_fails [of "unparse []" "snd (parseCSV text s)"]
    by simp
qed

theorem saveToCSV_after_parseCSV_witness:
  "originalData (MusicAnalyzer None) = []
   \<and> fst (parseCSV two_rows_csv (MusicAnalyzer None)) = Some TypeError
   \<and> map track (tracks (snd (parseCSV two_rows_csv (MusicAnalyzer None)))) = [''T1'', ''T2'']
   \<and> saveToCSV (\<lambda>rows. []) (snd (parseCSV two_rows_csv (MusicAnalyzer None)))
       = Inr ([], snd (parseCSV two_rows_csv (MusicAnalyzer None)))
   \<and> fst (parseCSV [] (snd (parseCSV two_rows_csv (MusicAnalyzer None)))) = Some EmptyFile"
proof -
  have a: "originalData (MusicAnalyzer None) = []" by (simp add: MusicAnalyzer_def)
  have b: "fst (parseCSV two_rows_csv (MusicAnalyzer None)) = Some TypeError" by code_simp
  have c: "map track (tracks (snd (parseCSV two_rows_csv (MusicAnalyzer None)))) = [''T1'', ''T2'']"
    by code_simp
  from saveToCSV_after_parseCSV [OF a, of two_rows_csv "\<lambda>rows. []"] a b c
  show ?thesis by simp
qed

text \<open>
  The parser of the second variant of the file does fill \<open>originalData\<close>: when
  \<open>Papa.parse\<close> reads back the eight columns that \<open>saveToCSV\<close> has written, the
  second parse yields the records of the first.
\<close>

lemma parseCSV_complete_tracks:
  "parseCSV_complete results s = (None, s1) \<Longrightarrow>
     tracks s1 = map (trackOf (metadata s)) (map rawOf (papa_data results))
     \<and> originalData s1 = map rawOf (papa_data results) \<and> metadata s1 = metadata s
     \<and> papa_data results \<noteq> []"
  by (auto simp: parseCSV_complete_def Let_def split: if_splits)

lemma trackOf_withMeta: "trackOf md (r\<lparr>raw_meta := m\<rparr>) = trackOf md r"
  by (simp add: trackOf_def)

lemma second_variant_roundtrip:
  assumes first: "parseCSV_complete results s = (None, s1)"
    and save: "saveToCSV unparse s1 = Inr (csv, s2)"
    and again: "papa_errors results' = []"
      "map rawOf (papa_data results') = map (\<lambda>r. r\<lparr>raw_meta := None\<rparr>) (originalData s2)"
  shows "fst (parseCSV_complete results' s2) = None
    \<and> tracks (snd (parseCSV_complete results' s2)) = tracks s1"
proof -
  from parseCSV_complete_tracks [OF first]
  have t1: "tracks s1 = map (trackOf (metadata s)) (map rawOf (papa_data results))"
    and o1: "originalData s1 = map rawOf (papa_data results)"
    and m1: "metadata s1 = metadata s" and ne: "papa_data results \<noteq> []"
    by simp_all
  from t1 o1 have len: "length (tracks s1) = length (originalData s1)" by simp
  with save have s2: "s2 = s1\<lparr>originalData := map2 withMeta (originalData s1) (tracks s1)\<rparr>"
    by (simp add: saveToCSV_def Let_def)
  have "map (\<lambda>r. r\<lparr>raw_meta := None\<rparr>) (map2 withMeta xs ys) = xs"
    if "length ys = length xs" "\<forall>r\<in>set xs. raw_meta r = None" for xs ys
    using that by (induction xs ys rule: list_induct2') (simp_all add: withMeta_def)
  with len o1 have "map (\<lambda>r. r\<lparr>raw_meta := None\<rparr>) (originalData s2) = originalData s1"
    by (simp add: s2 rawOf_def)
  with again(2) have rows: "map rawOf (papa_data results') = map rawOf (papa_data results)"
    by (simp add: o1)
  with ne have ne': "papa_data results' \<noteq> []" by auto
  show ?thesis
    using again(1) ne' rows t1 m1
    by (simp add: parseCSV_complete_def Let_def s2)
qed

end
